theory Spec2Isabelle
  imports Complex_Main
begin

section \<open>Budget Intelligence Index calculator (src/bii_calculator.py)\<close>

text \<open>
  The scoring engine of \<^verbatim>\<open>BIICalculator\<close> is embedded function by function.
  Python's \<^verbatim>\<open>int\<close> is \<open>int\<close> and \<^verbatim>\<open>str\<close> is \<open>string\<close>. A \<^verbatim>\<open>float\<close> is a real number.
  The nine layer scorers compute in exact arithmetic. The aggregation of the nine
  scores (lines 449-459) rounds every product and every partial sum to the nearest
  IEEE binary64 number, as the interpreter does, because whether the unclamped sum
  stays below 10 depends on that rounding.
  A Python exception is a value \<open>Inl e\<close> of the result type \<open>error + 'a\<close>.
  The class attribute \<^verbatim>\<open>LAYER_WEIGHTS\<close> is the only state outside its arguments that
  the engine reads; \<open>calculate_bii_cls\<close> takes the table as found and returns it as left.
\<close>

subsection \<open>Data model\<close>

datatype error = ZeroDivisionError | KeyError string

record LayerInputs =
  budget_on_time :: bool
  audit_delay_years :: int
  non_oil_revenue_percent :: real
  tax_base_breadth_score :: real
  collection_efficiency :: real
  debt_to_gdp :: real
  debt_service_to_revenue :: real
  fiscal_balance_trend :: string
  productive_spending_percent :: real
  consumption_spending_percent :: real
  ease_of_business_rank :: int
  sme_support_delivery_rate :: real
  forex_access_score :: real
  non_oil_exports_growth :: real
  caricom_integration_score :: real
  export_diversification_index :: real
  climate_budget_gdp_percent :: real
  green_projects_count :: int
  adaptation_funding_score :: real
  ict_budget_percent :: real
  egov_adoption_percent :: real
  digital_literacy_score :: real
  inflation_rate :: real
  unemployment_rate :: real
  real_wage_growth :: real
  food_security_score :: real

text \<open>The dictionary returned by \<^verbatim>\<open>calculate_bii\<close>: eleven fixed keys.\<close>

record BIIResult =
  layer1_fiscal_transparency :: real
  layer2_revenue_stability :: real
  layer3_debt_health :: real
  layer4_expenditure_efficiency :: real
  layer5_private_sector :: real
  layer6_trade_integration :: real
  layer7_climate_resilience :: real
  layer8_digital_readiness :: real
  layer9_human_impact :: real
  bii_overall :: real
  bii_grade :: string

text \<open>The class constant \<^verbatim>\<open>LAYER_WEIGHTS\<close>, a dict literal, in the order it is written.\<close>

definition LAYER_WEIGHTS :: "(string \<times> real) list" where
  "LAYER_WEIGHTS =
     [(''fiscal_transparency'', 0.12),
      (''revenue_stability'', 0.14),
      (''debt_health'', 0.15),
      (''expenditure_efficiency'', 0.13),
      (''private_sector'', 0.11),
      (''trade_integration'', 0.10),
      (''climate_resilience'', 0.08),
      (''digital_readiness'', 0.09),
      (''human_impact'', 0.08)]"

text \<open>
  Subscription \<^verbatim>\<open>cls.LAYER_WEIGHTS[k]\<close> on the table the class holds when the call is
  made: a missing key raises \<^verbatim>\<open>KeyError\<close>.
\<close>

definition layer_weight :: "(string \<times> real) list \<Rightarrow> string \<Rightarrow> error + real" where
  "layer_weight weights k =
     (case map_of weights k of None \<Rightarrow> Inl (KeyError k) | Some w \<Rightarrow> Inr w)"

text \<open>Python's true division \<^verbatim>\<open>a / b\<close> on floats raises on a zero divisor.\<close>

definition truediv :: "real \<Rightarrow> real \<Rightarrow> error + real" where
  "truediv a b = (if b = 0 then Inl ZeroDivisionError else Inr (a / b))"

text \<open>Sequencing of two computations that may raise.\<close>

definition and_then :: "error + 'a \<Rightarrow> ('a \<Rightarrow> error + 'b) \<Rightarrow> error + 'b" where
  "and_then m f = (case m of Inl e \<Rightarrow> Inl e | Inr v \<Rightarrow> f v)"

text \<open>
  Built-in \<^verbatim>\<open>round(x, 1)\<close>: the nearest multiple of one tenth, a tie going to the
  even tenth.
\<close>

definition round1 :: "real \<Rightarrow> real" where
  "round1 x =
     (let y = x * 10; f = \<lfloor>y\<rfloor>; d = y - of_int f
      in of_int (if d < 1 / 2 then f
                 else if 1 / 2 < d then f + 1
                 else if even f then f else f + 1) / 10)"

subsection \<open>Binary64 rounding\<close>

text \<open>The nearest integer, a tie going to the even one.\<close>

definition round_half_even :: "real \<Rightarrow> int" where
  "round_half_even y =
     (let f = \<lfloor>y\<rfloor>; d = y - of_int f
      in if d < 1 / 2 then f
         else if 1 / 2 < d then f + 1
         else if even f then f else f + 1)"

text \<open>The number of halvings that take \<open>n\<close> below 2: for \<open>n \<ge> 1\<close> the exponent of its leading bit.\<close>

fun ilog2 :: "nat \<Rightarrow> nat" where
  "ilog2 n = (if n < 2 then 0 else Suc (ilog2 (n div 2)))"

declare ilog2.simps [simp del]

text \<open>For \<open>x > 0\<close>, the exponent \<open>e\<close> with \<open>2^e \<le> x < 2^(e+1)\<close>.\<close>

definition binade :: "real \<Rightarrow> int" where
  "binade x =
     (if 1 \<le> x then int (ilog2 (nat \<lfloor>x\<rfloor>))
      else - int (Suc (ilog2 (nat (\<lceil>1 / x\<rceil> - 1)))))"

text \<open>
  Round to nearest, ties to even, onto the binary64 grid: 53 significant bits, the
  spacing of the subnormal range below \<open>2^-1022\<close>. Magnitudes beyond the largest finite
  double are not reached by the aggregation, whose operands are at most 10, and have
  no infinity here.
\<close>

definition fl64 :: "real \<Rightarrow> real" where
  "fl64 x =
     (if x = 0 then 0
      else let e = max (binade \<bar>x\<bar>) (- 1022); u = 2 powi (e - 52)
           in of_int (round_half_even (x / u)) * u)"

text \<open>Python's \<^verbatim>\<open>a * b\<close> and \<^verbatim>\<open>a + b\<close> on two floats.\<close>

definition float_mul :: "real \<Rightarrow> real \<Rightarrow> real" where
  "float_mul a b = fl64 (a * b)"

definition float_add :: "real \<Rightarrow> real \<Rightarrow> real" where
  "float_add a b = fl64 (a + b)"

subsection \<open>Layer scorers\<close>

text \<open>
  Divisions by a non-zero literal (\<open>100\<close>, \<open>10\<close>, \<open>15\<close>, \<open>25\<close>, \<open>5\<close>, \<open>3.33\<close>, \<open>0.5\<close>)
  cannot raise and are written with \<open>/\<close>; the one division by an input, in layer 4,
  goes through \<open>truediv\<close>.
\<close>

definition calculate_layer1_fiscal_transparency :: "bool \<Rightarrow> int \<Rightarrow> real" where
  "calculate_layer1_fiscal_transparency budget_on_time' audit_delay_years' =
     (let score = 5;
          score = (if budget_on_time' then score + 5 else score);
          audit_penalty = min (of_int audit_delay_years' * 1) 4;
          score = score - audit_penalty
      in max 0 (min 10 score))"

definition calculate_layer2_revenue_stability :: "real \<Rightarrow> real \<Rightarrow> real \<Rightarrow> real" where
  "calculate_layer2_revenue_stability non_oil_percent tax_base_score collection_efficiency' =
     (let score = ((non_oil_percent / 100 * 6) +
                   (tax_base_score / 10 * 3) +
                   (collection_efficiency' / 10 * 1)) * 10
      in max 0 (min 10 score))"

text \<open>The local \<^verbatim>\<open>base_score\<close> of layer 3 as first assigned from debt/GDP (lines 142-149).\<close>

definition debt_base_score :: "real \<Rightarrow> real" where
  "debt_base_score debt_to_gdp' =
     (if debt_to_gdp' < 60 then 9
      else if debt_to_gdp' < 75 then 7 - ((debt_to_gdp' - 60) / 15 * 2)
      else if debt_to_gdp' < 85 then 5 - ((debt_to_gdp' - 75) / 10 * 2)
      else 2 - ((debt_to_gdp' - 85) / 15 * 2))"

text \<open>The dict literal with \<^verbatim>\<open>.get(fiscal_balance_trend, 0.0)\<close> (lines 158-162).\<close>

definition trend_adjustment :: "string \<Rightarrow> real" where
  "trend_adjustment fiscal_balance_trend' =
     (case map_of [(''improving'', 1), (''stable'', 0), (''declining'', - 1)]
             fiscal_balance_trend' of
        Some a \<Rightarrow> a
      | None \<Rightarrow> 0)"

definition calculate_layer3_debt_health :: "real \<Rightarrow> real \<Rightarrow> string \<Rightarrow> real" where
  "calculate_layer3_debt_health debt_to_gdp' debt_service_to_revenue' fiscal_balance_trend' =
     (let base_score = debt_base_score debt_to_gdp';
          base_score = (if debt_service_to_revenue' < 15 then base_score + 1
                        else if 20 < debt_service_to_revenue' then base_score - 1
                        else base_score);
          base_score = base_score + trend_adjustment fiscal_balance_trend'
      in max 0 (min 10 base_score))"

definition calculate_layer4_expenditure_efficiency :: "real \<Rightarrow> real \<Rightarrow> error + real" where
  "calculate_layer4_expenditure_efficiency productive_percent consumption_percent =
     (if consumption_percent = 0 then Inr 0
      else and_then (truediv productive_percent consumption_percent) (\<lambda>ratio.
             let score = ratio * 5 in Inr (max 0 (min 10 score))))"

definition calculate_layer5_private_sector :: "int \<Rightarrow> real \<Rightarrow> real \<Rightarrow> real" where
  "calculate_layer5_private_sector ease_of_business_rank' sme_delivery_rate forex_access =
     (let eob_score = (if ease_of_business_rank' \<le> 50 then 4
                       else if ease_of_business_rank' \<le> 100 then 3
                       else if ease_of_business_rank' \<le> 150 then 2
                       else 1);
          sme_score = min (sme_delivery_rate / 25) 4;
          forex_score = min (forex_access / 5) 2;
          total_score = eob_score + sme_score + forex_score
      in max 0 (min 10 total_score))"

definition calculate_layer6_trade_integration :: "real \<Rightarrow> real \<Rightarrow> real \<Rightarrow> real" where
  "calculate_layer6_trade_integration export_growth caricom_integration diversification_index =
     (let growth_score = (if 10 \<le> export_growth then 4
                          else if 5 \<le> export_growth then 2 + (export_growth - 5) / 5 * 2
                          else if 0 \<le> export_growth then export_growth / 5 * 2
                          else 0);
          caricom_score = min (caricom_integration / 3.33) 3;
          div_score = (1 - diversification_index) * 3;
          total_score = growth_score + caricom_score + div_score
      in max 0 (min 10 total_score))"

text \<open>The local \<^verbatim>\<open>budget_score\<close> of layer 7 (lines 270-277).\<close>

definition climate_budget_score :: "real \<Rightarrow> real" where
  "climate_budget_score climate_budget_gdp =
     (if 2.0 \<le> climate_budget_gdp then 4
      else if 1.0 \<le> climate_budget_gdp then 2 + (climate_budget_gdp - 1.0) * 2
      else if 0.5 \<le> climate_budget_gdp then 1 + (climate_budget_gdp - 0.5) * 2
      else climate_budget_gdp / 0.5)"

definition calculate_layer7_climate_resilience :: "real \<Rightarrow> int \<Rightarrow> real \<Rightarrow> real" where
  "calculate_layer7_climate_resilience climate_budget_gdp projects_count adaptation_funding =
     (let budget_score = climate_budget_score climate_budget_gdp;
          projects_score = (if 10 \<le> projects_count then 3
                            else if 5 \<le> projects_count then 2
                            else if 1 \<le> projects_count then 1
                            else 0);
          adaptation_score = min (adaptation_funding / 3.33) 3;
          total_score = budget_score + projects_score + adaptation_score
      in max 0 (min 10 total_score))"

definition calculate_layer8_digital_readiness :: "real \<Rightarrow> real \<Rightarrow> real \<Rightarrow> real" where
  "calculate_layer8_digital_readiness ict_budget_percent' egov_adoption digital_literacy =
     (let ict_score = (if 2.0 \<le> ict_budget_percent' then 3
                       else if 1.0 \<le> ict_budget_percent' then 2 + (ict_budget_percent' - 1.0)
                       else if 0.5 \<le> ict_budget_percent' then 1 + (ict_budget_percent' - 0.5) * 2
                       else ict_budget_percent' / 0.5);
          egov_score = (if 50 \<le> egov_adoption then 4
                        else if 25 \<le> egov_adoption then 2 + (egov_adoption - 25) / 25 * 2
                        else egov_adoption / 25 * 2);
          literacy_score = min (digital_literacy / 3.33) 3;
          total_score = ict_score + egov_score + literacy_score
      in max 0 (min 10 total_score))"

definition calculate_layer9_human_impact :: "real \<Rightarrow> real \<Rightarrow> real \<Rightarrow> real \<Rightarrow> real" where
  "calculate_layer9_human_impact inflation unemployment real_wage_growth' food_security =
     (let inflation_score = (if inflation < 2 then 3
                             else if inflation < 4 then 2
                             else if inflation < 6 then 1
                             else 0);
          unemp_score = (if unemployment < 4 then 3
                         else if unemployment < 6 then 2
                         else if unemployment < 8 then 1
                         else 0);
          wage_score = (if 2 < real_wage_growth' then 2
                        else if 0 < real_wage_growth' then 1
                        else 0);
          food_score = min (food_security / 5) 2;
          total_score = inflation_score + unemp_score + wage_score + food_score
      in max 0 (min 10 total_score))"

subsection \<open>Grader and aggregator\<close>

definition calculate_grade :: "real \<Rightarrow> string" where
  "calculate_grade score =
     (if 9.5 \<le> score then ''A+''
      else if 9.0 \<le> score then ''A''
      else if 8.5 \<le> score then ''A-''
      else if 8.0 \<le> score then ''B+''
      else if 7.0 \<le> score then ''B''
      else if 6.5 \<le> score then ''B-''
      else if 6.0 \<le> score then ''C+''
      else if 5.0 \<le> score then ''C''
      else if 4.5 \<le> score then ''C-''
      else if 4.0 \<le> score then ''D+''
      else if 3.0 \<le> score then ''D''
      else if 2.0 \<le> score then ''D-''
      else ''F'')"

text \<open>
  The weighted sum assigned to the local \<^verbatim>\<open>bii_overall\<close> (lines 449-459): the nine
  weights are looked up from left to right in the table of the class, each literal
  stands for the double nearest to it, and the products are added from left to right,
  every operation rounding to binary64.
\<close>

definition weighted_overall ::
  "(string \<times> real) list \<Rightarrow>
   real \<Rightarrow> real \<Rightarrow> real \<Rightarrow> real \<Rightarrow> real \<Rightarrow> real \<Rightarrow> real \<Rightarrow> real \<Rightarrow> real \<Rightarrow> error + real" where
  "weighted_overall weights layer1 layer2 layer3 layer4 layer5 layer6 layer7 layer8 layer9 =
     and_then (layer_weight weights ''fiscal_transparency'') (\<lambda>w1.
     and_then (layer_weight weights ''revenue_stability'') (\<lambda>w2.
     and_then (layer_weight weights ''debt_health'') (\<lambda>w3.
     and_then (layer_weight weights ''expenditure_efficiency'') (\<lambda>w4.
     and_then (layer_weight weights ''private_sector'') (\<lambda>w5.
     and_then (layer_weight weights ''trade_integration'') (\<lambda>w6.
     and_then (layer_weight weights ''climate_resilience'') (\<lambda>w7.
     and_then (layer_weight weights ''digital_readiness'') (\<lambda>w8.
     and_then (layer_weight weights ''human_impact'') (\<lambda>w9.
       Inr (float_add (float_add (float_add (float_add (float_add (float_add (float_add
              (float_add (float_mul layer1 (fl64 w1))
                         (float_mul layer2 (fl64 w2)))
                         (float_mul layer3 (fl64 w3)))
                         (float_mul layer4 (fl64 w4)))
                         (float_mul layer5 (fl64 w5)))
                         (float_mul layer6 (fl64 w6)))
                         (float_mul layer7 (fl64 w7)))
                         (float_mul layer8 (fl64 w8)))
                         (float_mul layer9 (fl64 w9))))))))))))"

text \<open>
  The value of the local \<^verbatim>\<open>bii_overall\<close> of \<^verbatim>\<open>calculate_bii\<close> before it is rounded
  for the result, on the class as its body defines it: the nine scorers on the fields
  of the record, then the weighted sum.
\<close>

definition bii_unrounded :: "LayerInputs \<Rightarrow> error + real" where
  "bii_unrounded inputs =
     (let layer1 = calculate_layer1_fiscal_transparency
                     (budget_on_time inputs) (audit_delay_years inputs);
          layer2 = calculate_layer2_revenue_stability
                     (non_oil_revenue_percent inputs) (tax_base_breadth_score inputs)
                     (collection_efficiency inputs);
          layer3 = calculate_layer3_debt_health
                     (debt_to_gdp inputs) (debt_service_to_revenue inputs)
                     (fiscal_balance_trend inputs)
      in and_then (calculate_layer4_expenditure_efficiency
                     (productive_spending_percent inputs)
                     (consumption_spending_percent inputs)) (\<lambda>layer4.
         let layer5 = calculate_layer5_private_sector
                        (ease_of_business_rank inputs) (sme_support_delivery_rate inputs)
                        (forex_access_score inputs);
             layer6 = calculate_layer6_trade_integration
                        (non_oil_exports_growth inputs) (caricom_integration_score inputs)
                        (export_diversification_index inputs);
             layer7 = calculate_layer7_climate_resilience
                        (climate_budget_gdp_percent inputs) (green_projects_count inputs)
                        (adaptation_funding_score inputs);
             layer8 = calculate_layer8_digital_readiness
                        (ict_budget_percent inputs) (egov_adoption_percent inputs)
                        (digital_literacy_score inputs);
             layer9 = calculate_layer9_human_impact
                        (inflation_rate inputs) (unemployment_rate inputs)
                        (real_wage_growth inputs) (food_security_score inputs)
         in weighted_overall LAYER_WEIGHTS
              layer1 layer2 layer3 layer4 layer5 layer6 layer7 layer8 layer9))"

text \<open>
  The class method \<^verbatim>\<open>calculate_bii(cls, inputs)\<close>. Its first argument is the weight
  table that \<^verbatim>\<open>cls\<close> holds when the call is made; the second component of the result is
  the table the call leaves behind. The body has no assignment to it.
\<close>

definition calculate_bii_cls ::
  "(string \<times> real) list \<Rightarrow> LayerInputs \<Rightarrow> (error + BIIResult) \<times> (string \<times> real) list" where
  "calculate_bii_cls weights inputs =
     (let layer1 = calculate_layer1_fiscal_transparency
                     (budget_on_time inputs) (audit_delay_years inputs);
          layer2 = calculate_layer2_revenue_stability
                     (non_oil_revenue_percent inputs) (tax_base_breadth_score inputs)
                     (collection_efficiency inputs);
          layer3 = calculate_layer3_debt_health
                     (debt_to_gdp inputs) (debt_service_to_revenue inputs)
                     (fiscal_balance_trend inputs)
      in and_then (calculate_layer4_expenditure_efficiency
                     (productive_spending_percent inputs)
                     (consumption_spending_percent inputs)) (\<lambda>layer4.
         let layer5 = calculate_layer5_private_sector
                        (ease_of_business_rank inputs) (sme_support_delivery_rate inputs)
                        (forex_access_score inputs);
             layer6 = calculate_layer6_trade_integration
                        (non_oil_exports_growth inputs) (caricom_integration_score inputs)
                        (export_diversification_index inputs);
             layer7 = calculate_layer7_climate_resilience
                        (climate_budget_gdp_percent inputs) (green_projects_count inputs)
                        (adaptation_funding_score inputs);
             layer8 = calculate_layer8_digital_readiness
                        (ict_budget_percent inputs) (egov_adoption_percent inputs)
                        (digital_literacy_score inputs);
             layer9 = calculate_layer9_human_impact
                        (inflation_rate inputs) (unemployment_rate inputs)
                        (real_wage_growth inputs) (food_security_score inputs)
         in and_then (weighted_overall weights layer1 layer2 layer3 layer4 layer5
                        layer6 layer7 layer8 layer9) (\<lambda>bii_overall'.
            let grade = calculate_grade bii_overall'
            in Inr \<lparr>layer1_fiscal_transparency = round1 layer1,
                    layer2_revenue_stability = round1 layer2,
                    layer3_debt_health = round1 layer3,
                    layer4_expenditure_efficiency = round1 layer4,
                    layer5_private_sector = round1 layer5,
                    layer6_trade_integration = round1 layer6,
                    layer7_climate_resilience = round1 layer7,
                    layer8_digital_readiness = round1 layer8,
                    layer9_human_impact = round1 layer9,
                    bii_overall = round1 bii_overall',
                    bii_grade = grade\<rparr>)),
      weights)"

text \<open>The call \<^verbatim>\<open>BIICalculator.calculate_bii(inputs)\<close> on the class as its body defines it.\<close>

definition calculate_bii :: "LayerInputs \<Rightarrow> error + BIIResult" where
  "calculate_bii inputs = fst (calculate_bii_cls LAYER_WEIGHTS inputs)"

subsection \<open>Concrete input records\<close>


text \<open>
  A record on which layers 1 to 8 score 10 and layer 9 scores 3.2, so that the weighted
  sum is 9.456: below the A+ threshold, and 9.5 once rounded.
\<close>

definition inputs_near_threshold :: LayerInputs where
  "inputs_near_threshold =
     \<lparr>budget_on_time = True, audit_delay_years = 0,
      non_oil_revenue_percent = 100, tax_base_breadth_score = 10,
      collection_efficiency = 10,
      debt_to_gdp = 40, debt_service_to_revenue = 10,
      fiscal_balance_trend = ''stable'',
      productive_spending_percent = 100, consumption_spending_percent = 50,
      ease_of_business_rank = 1, sme_support_delivery_rate = 100,
      forex_access_score = 10,
      non_oil_exports_growth = 10, caricom_integration_score = 10,
      export_diversification_index = 0,
      climate_budget_gdp_percent = 2, green_projects_count = 10,
      adaptation_funding_score = 10,
      ict_budget_percent = 2, egov_adoption_percent = 50,
      digital_literacy_score = 10,
      inflation_rate = 1, unemployment_rate = 9, real_wage_growth = 0,
      food_security_score = 1\<rparr>"

text \<open>A record on which every one of the nine layers scores 10.\<close>

definition inputs_full_marks :: LayerInputs where
  "inputs_full_marks =
     \<lparr>budget_on_time = True, audit_delay_years = 0,
      non_oil_revenue_percent = 100, tax_base_breadth_score = 10,
      collection_efficiency = 10,
      debt_to_gdp = 40, debt_service_to_revenue = 10,
      fiscal_balance_trend = ''stable'',
      productive_spending_percent = 100, consumption_spending_percent = 50,
      ease_of_business_rank = 1, sme_support_delivery_rate = 100,
      forex_access_score = 10,
      non_oil_exports_growth = 10, caricom_integration_score = 10,
      export_diversification_index = 0,
      climate_budget_gdp_percent = 2, green_projects_count = 10,
      adaptation_funding_score = 10,
      ict_budget_percent = 2, egov_adoption_percent = 50,
      digital_literacy_score = 10,
      inflation_rate = 1, unemployment_rate = 3, real_wage_growth = 3,
      food_security_score = 10\<rparr>"


section \<open>Auxiliary facts\<close>

subsection \<open>The error of one binary64 operation\<close>

lemma ilog2_numeral [simp]:
  "ilog2 0 = 0" "ilog2 1 = 0" "ilog2 (Suc 0) = 0"
  "ilog2 (numeral (Num.Bit0 n)) = Suc (ilog2 (numeral n))"
  "ilog2 (numeral (Num.Bit1 n)) = Suc (ilog2 (numeral n))"
  "ilog2 (numeral Num.One) = 0"
  by (subst ilog2.simps, simp)+

lemma round_half_even_error: "\<bar>of_int (round_half_even y) - y\<bar> \<le> 1 / 2"
proof -
  have "of_int \<lfloor>y\<rfloor> \<le> y" "y < of_int \<lfloor>y\<rfloor> + 1" by linarith+
  then show ?thesis
    by (auto simp: round_half_even_def Let_def)
qed

lemma round_half_even_nonneg: "0 \<le> y \<Longrightarrow> 0 \<le> round_half_even y"
  by (auto simp: round_half_even_def Let_def)

lemma ilog2_le: "n < 2 ^ Suc k \<Longrightarrow> ilog2 n \<le> k"
proof (induction k arbitrary: n)
  case 0
  then show ?case by (subst ilog2.simps) simp
next
  case (Suc k)
  show ?case
  proof (cases "n < 2")
    case True
    then show ?thesis by (subst ilog2.simps) simp
  next
    case False
    have "n div 2 < 2 ^ Suc k" using Suc.prems by simp
    then have "ilog2 (n div 2) \<le> k" by (rule Suc.IH)
    with False show ?thesis by (subst ilog2.simps) simp
  qed
qed

lemma ilog2_bounds: "1 \<le> n \<Longrightarrow> 2 ^ ilog2 n \<le> n \<and> n < 2 ^ Suc (ilog2 n)"
proof (induction n rule: ilog2.induct)
  case (1 n)
  show ?case
  proof (cases "n < 2")
    case True
    with "1.prems" have "n = 1" by simp
    then show ?thesis by simp
  next
    case False
    then have "1 \<le> n div 2" by simp
    with "1.IH" False have ih: "2 ^ ilog2 (n div 2) \<le> n div 2"
      "n div 2 < 2 ^ Suc (ilog2 (n div 2))" by simp_all
    have eq: "ilog2 n = Suc (ilog2 (n div 2))"
      using False by (subst ilog2.simps) simp
    from ih show ?thesis unfolding eq by simp linarith
  qed
qed

text \<open>\<open>binade\<close> is the exponent of the power of two at or below a positive number.\<close>

lemma binade_bounds:
  assumes "0 < x"
  shows "2 powi binade x \<le> x \<and> x < 2 powi (binade x + 1)"
proof (cases "1 \<le> x")
  case True
  define n where "n = nat \<lfloor>x\<rfloor>"
  have n1: "1 \<le> n" using True by (simp add: n_def le_nat_iff le_floor_iff)
  have nx: "real n \<le> x" "x < real n + 1"
    using True unfolding n_def by linarith+
  from ilog2_bounds [OF n1] have lo: "2 ^ ilog2 n \<le> n" and hi: "Suc n \<le> 2 ^ Suc (ilog2 n)"
    by simp_all
  have "(2::real) ^ ilog2 n \<le> real n" and "real n + 1 \<le> (2::real) ^ Suc (ilog2 n)"
    using of_nat_mono [OF lo, where 'a = real] of_nat_mono [OF hi, where 'a = real]
    by simp_all
  with nx have bounds: "2 ^ ilog2 n \<le> x" "x < 2 ^ Suc (ilog2 n)" by linarith+
  have b: "binade x = int (ilog2 n)" using True by (simp add: binade_def n_def)
  have b1: "binade x + 1 = int (Suc (ilog2 n))" unfolding b by simp
  show ?thesis
    unfolding b1 unfolding b power_int_of_nat using bounds by blast
next
  case False
  define y where "y = 1 / x"
  define m where "m = nat (\<lceil>y\<rceil> - 1)"
  have y1: "1 < y" using assms False by (simp add: y_def)
  then have c2: "2 \<le> \<lceil>y\<rceil>" by (simp add: le_ceiling_iff)
  then have m1: "1 \<le> m" unfolding m_def by linarith
  have my: "real m < y" "y \<le> real m + 1"
    using c2 unfolding m_def by linarith+
  from ilog2_bounds [OF m1] have lo: "2 ^ ilog2 m \<le> m" and hi: "Suc m \<le> 2 ^ Suc (ilog2 m)"
    by simp_all
  have "(2::real) ^ ilog2 m \<le> real m" and "real m + 1 \<le> (2::real) ^ Suc (ilog2 m)"
    using of_nat_mono [OF lo, where 'a = real] of_nat_mono [OF hi, where 'a = real]
    by simp_all
  with my have ylo: "2 ^ ilog2 m < y" and yhi: "y \<le> 2 ^ Suc (ilog2 m)" by linarith+
  have b: "binade x = - int (Suc (ilog2 m))"
    using False by (simp add: binade_def m_def y_def)
  have "1 / 2 ^ Suc (ilog2 m) \<le> x"
    using yhi assms unfolding y_def by (simp add: field_simps)
  moreover have "x < 1 / 2 ^ ilog2 m"
    using ylo assms unfolding y_def by (simp add: field_simps)
  moreover have b1: "binade x + 1 = - int (ilog2 m)" unfolding b by simp
  ultimately show ?thesis
    unfolding b1 unfolding b power_int_minus_divide power_int_of_nat by blast
qed

lemma binade_less_16:
  assumes "0 < x" and "x < 16"
  shows "binade x \<le> 3"
proof (cases "1 \<le> x")
  case True
  have "nat \<lfloor>x\<rfloor> < 2 ^ Suc 3" using assms by (simp add: floor_less_iff nat_less_iff)
  then have "ilog2 (nat \<lfloor>x\<rfloor>) \<le> 3" by (rule ilog2_le)
  with True show ?thesis by (simp add: binade_def)
next
  case False
  then show ?thesis by (simp add: binade_def)
qed

text \<open>Below 16 one rounding moves a non-negative number by at most \<open>2^-50\<close>.\<close>

lemma fl64_error:
  assumes "0 \<le> x" and "x < 16"
  shows "0 \<le> fl64 x \<and> x - 1 / 2 ^ 50 \<le> fl64 x \<and> fl64 x \<le> x + 1 / 2 ^ 50"
proof (cases "x = 0")
  case True
  then show ?thesis by (simp add: fl64_def)
next
  case False
  define e where "e = max (binade \<bar>x\<bar>) (- 1022)"
  define u :: real where "u = 2 powi (e - 52)"
  have x: "0 < x" using assms False by simp
  have "e \<le> 3" using binade_less_16 [OF x assms(2)] x by (simp add: e_def)
  then have "u \<le> 2 powi (- 49)"
    unfolding u_def by (intro power_int_increasing) simp_all
  then have u49: "u \<le> 1 / 2 ^ 49" by (simp add: power_int_minus_divide)
  have u0: "0 < u" by (simp add: u_def)
  have fl: "fl64 x = of_int (round_half_even (x / u)) * u"
    using False by (simp add: fl64_def Let_def e_def u_def)
  have "0 \<le> x / u" using x u0 by simp
  then have nonneg: "0 \<le> fl64 x"
    unfolding fl using u0 round_half_even_nonneg [of "x / u"] by simp
  have "fl64 x - x = (of_int (round_half_even (x / u)) - x / u) * u"
    unfolding fl using u0 by (simp add: left_diff_distrib)
  then have "\<bar>fl64 x - x\<bar> = \<bar>of_int (round_half_even (x / u)) - x / u\<bar> * u"
    using u0 by (simp add: abs_mult)
  also have "\<dots> \<le> 1 / 2 * u"
    using round_half_even_error [of "x / u"] u0 by (intro mult_right_mono) simp_all
  also have "\<dots> \<le> 1 / 2 ^ 50" using u49 by simp
  finally have "\<bar>fl64 x - x\<bar> \<le> 1 / 2 ^ 50" .
  then have "x - 1 / 2 ^ 50 \<le> fl64 x" "fl64 x \<le> x + 1 / 2 ^ 50"
    by linarith+
  with nonneg show ?thesis by blast
qed

lemma float_mul_bound:
  assumes "0 \<le> l \<and> l \<le> 10" and "0 \<le> w" and "w \<le> 3 / 2"
  shows "0 \<le> float_mul l w \<and> float_mul l w \<le> 10 * w + 1 / 2 ^ 50"
proof -
  have "l * w \<le> 10 * w" using assms by (intro mult_right_mono) simp_all
  moreover have "0 \<le> l * w" using assms by simp
  moreover have "l * w < 16" using \<open>l * w \<le> 10 * w\<close> assms by linarith
  ultimately show ?thesis
    using fl64_error [of "l * w"] unfolding float_mul_def by linarith
qed

lemma float_add_bound:
  assumes "0 \<le> a" and "0 \<le> b" and "a + b < 16"
  shows "0 \<le> float_add a b \<and> float_add a b \<le> a + b + 1 / 2 ^ 50"
proof -
  have "0 \<le> a + b" using assms by simp
  from fl64_error [OF this assms(3)] show ?thesis
    unfolding float_add_def by linarith
qed

lemma fl64_weight_bound:
  assumes "0 \<le> w" and "w < 16"
  shows "0 \<le> fl64 w \<and> fl64 w \<le> w + 1 / 2 ^ 50"
  using fl64_error [OF assms] by blast

subsection \<open>The aggregation and the layer ranges\<close>

lemma layer_weight_simps:
  "layer_weight LAYER_WEIGHTS ''fiscal_transparency'' = Inr 0.12"
  "layer_weight LAYER_WEIGHTS ''revenue_stability'' = Inr 0.14"
  "layer_weight LAYER_WEIGHTS ''debt_health'' = Inr 0.15"
  "layer_weight LAYER_WEIGHTS ''expenditure_efficiency'' = Inr 0.13"
  "layer_weight LAYER_WEIGHTS ''private_sector'' = Inr 0.11"
  "layer_weight LAYER_WEIGHTS ''trade_integration'' = Inr 0.10"
  "layer_weight LAYER_WEIGHTS ''climate_resilience'' = Inr 0.08"
  "layer_weight LAYER_WEIGHTS ''digital_readiness'' = Inr 0.09"
  "layer_weight LAYER_WEIGHTS ''human_impact'' = Inr 0.08"
  by (simp_all add: layer_weight_def LAYER_WEIGHTS_def)

text \<open>The doubles that the nine weight literals denote.\<close>

lemma fl64_weights:
  "fl64 0.12 = 1080863910568919 / 9007199254740992"
  "fl64 0.14 = 1261007895663739 / 9007199254740992"
  "fl64 0.15 = 5404319552844595 / 36028797018963968"
  "fl64 0.13 = 1170935903116329 / 9007199254740992"
  "fl64 0.11 = 7926335344172073 / 72057594037927936"
  "fl64 0.10 = 3602879701896397 / 36028797018963968"
  "fl64 0.08 = 5764607523034235 / 72057594037927936"
  "fl64 0.09 = 3242591731706757 / 36028797018963968"
  by (simp_all add: fl64_def binade_def round_half_even_def Let_def)

text \<open>None of the nine subscriptions raises: the weighted sum always has a value.\<close>

lemma weighted_overall_eq:
  "weighted_overall LAYER_WEIGHTS l1 l2 l3 l4 l5 l6 l7 l8 l9 =
     Inr (float_add (float_add (float_add (float_add (float_add (float_add (float_add
            (float_add (float_mul l1 (fl64 0.12))
                       (float_mul l2 (fl64 0.14)))
                       (float_mul l3 (fl64 0.15)))
                       (float_mul l4 (fl64 0.13)))
                       (float_mul l5 (fl64 0.11)))
                       (float_mul l6 (fl64 0.10)))
                       (float_mul l7 (fl64 0.08)))
                       (float_mul l8 (fl64 0.09)))
                       (float_mul l9 (fl64 0.08)))"
  by (simp only: weighted_overall_def layer_weight_simps and_then_def sum.case)

lemma float_mul_weight_bound:
  assumes "0 \<le> l \<and> l \<le> 10" and "0 \<le> w" and "w \<le> 1"
  shows "0 \<le> float_mul l (fl64 w) \<and> float_mul l (fl64 w) \<le> 10 * w + 11 / 2 ^ 50"
proof -
  have "w < 16" using assms by simp
  from fl64_weight_bound [OF assms(2) this]
  have W: "0 \<le> fl64 w" "fl64 w \<le> w + 1 / 2 ^ 50" by simp_all
  then have "fl64 w \<le> 3 / 2" using assms by simp
  from float_mul_bound [OF assms(1) W(1) this] W show ?thesis by simp
qed

text \<open>
  Nine scores in \<open>[0, 10]\<close> give a weighted sum that is not negative and exceeds 10 by
  no more than the seventeen roundings and the nine weight conversions can add.
\<close>

lemma weighted_overall_range:
  assumes r1: "0 \<le> l1 \<and> l1 \<le> 10" and r2: "0 \<le> l2 \<and> l2 \<le> 10" and r3: "0 \<le> l3 \<and> l3 \<le> 10"
    and r4: "0 \<le> l4 \<and> l4 \<le> 10" and r5: "0 \<le> l5 \<and> l5 \<le> 10" and r6: "0 \<le> l6 \<and> l6 \<le> 10"
    and r7: "0 \<le> l7 \<and> l7 \<le> 10" and r8: "0 \<le> l8 \<and> l8 \<le> 10" and r9: "0 \<le> l9 \<and> l9 \<le> 10"
  shows "\<exists>c. weighted_overall LAYER_WEIGHTS l1 l2 l3 l4 l5 l6 l7 l8 l9 = Inr c \<and>
             0 \<le> c \<and> c \<le> 10 + 1 / 2 ^ 43"
proof -
  define p1 where "p1 = float_mul l1 (fl64 0.12)"
  define p2 where "p2 = float_mul l2 (fl64 0.14)"
  define p3 where "p3 = float_mul l3 (fl64 0.15)"
  define p4 where "p4 = float_mul l4 (fl64 0.13)"
  define p5 where "p5 = float_mul l5 (fl64 0.11)"
  define p6 where "p6 = float_mul l6 (fl64 0.10)"
  define p7 where "p7 = float_mul l7 (fl64 0.08)"
  define p8 where "p8 = float_mul l8 (fl64 0.09)"
  define p9 where "p9 = float_mul l9 (fl64 0.08)"
  define s2 where "s2 = float_add p1 p2"
  define s3 where "s3 = float_add s2 p3"
  define s4 where "s4 = float_add s3 p4"
  define s5 where "s5 = float_add s4 p5"
  define s6 where "s6 = float_add s5 p6"
  define s7 where "s7 = float_add s6 p7"
  define s8 where "s8 = float_add s7 p8"
  define s9 where "s9 = float_add s8 p9"
  have p1: "0 \<le> p1 \<and> p1 \<le> 10 * 0.12 + 11 / 2 ^ 50"
    unfolding p1_def by (rule float_mul_weight_bound [OF r1]) simp_all
  have p2: "0 \<le> p2 \<and> p2 \<le> 10 * 0.14 + 11 / 2 ^ 50"
    unfolding p2_def by (rule float_mul_weight_bound [OF r2]) simp_all
  have p3: "0 \<le> p3 \<and> p3 \<le> 10 * 0.15 + 11 / 2 ^ 50"
    unfolding p3_def by (rule float_mul_weight_bound [OF r3]) simp_all
  have p4: "0 \<le> p4 \<and> p4 \<le> 10 * 0.13 + 11 / 2 ^ 50"
    unfolding p4_def by (rule float_mul_weight_bound [OF r4]) simp_all
  have p5: "0 \<le> p5 \<and> p5 \<le> 10 * 0.11 + 11 / 2 ^ 50"
    unfolding p5_def by (rule float_mul_weight_bound [OF r5]) simp_all
  have p6: "0 \<le> p6 \<and> p6 \<le> 10 * 0.10 + 11 / 2 ^ 50"
    unfolding p6_def by (rule float_mul_weight_bound [OF r6]) simp_all
  have p7: "0 \<le> p7 \<and> p7 \<le> 10 * 0.08 + 11 / 2 ^ 50"
    unfolding p7_def by (rule float_mul_weight_bound [OF r7]) simp_all
  have p8: "0 \<le> p8 \<and> p8 \<le> 10 * 0.09 + 11 / 2 ^ 50"
    unfolding p8_def by (rule float_mul_weight_bound [OF r8]) simp_all
  have p9: "0 \<le> p9 \<and> p9 \<le> 10 * 0.08 + 11 / 2 ^ 50"
    unfolding p9_def by (rule float_mul_weight_bound [OF r9]) simp_all
  note ps = p1 p2 p3 p4 p5 p6 p7 p8 p9
  have s2: "0 \<le> s2 \<and> s2 \<le> p1 + p2 + 1 / 2 ^ 50"
    unfolding s2_def using ps by (intro float_add_bound) simp_all
  have s3: "0 \<le> s3 \<and> s3 \<le> s2 + p3 + 1 / 2 ^ 50"
    unfolding s3_def using ps s2 by (intro float_add_bound) simp_all
  have s4: "0 \<le> s4 \<and> s4 \<le> s3 + p4 + 1 / 2 ^ 50"
    unfolding s4_def using ps s2 s3 by (intro float_add_bound) simp_all
  have s5: "0 \<le> s5 \<and> s5 \<le> s4 + p5 + 1 / 2 ^ 50"
    unfolding s5_def using ps s2 s3 s4 by (intro float_add_bound) simp_all
  have s6: "0 \<le> s6 \<and> s6 \<le> s5 + p6 + 1 / 2 ^ 50"
    unfolding s6_def using ps s2 s3 s4 s5 by (intro float_add_bound) simp_all
  have s7: "0 \<le> s7 \<and> s7 \<le> s6 + p7 + 1 / 2 ^ 50"
    unfolding s7_def using ps s2 s3 s4 s5 s6 by (intro float_add_bound) simp_all
  have s8: "0 \<le> s8 \<and> s8 \<le> s7 + p8 + 1 / 2 ^ 50"
    unfolding s8_def using ps s2 s3 s4 s5 s6 s7 by (intro float_add_bound) simp_all
  have s9: "0 \<le> s9 \<and> s9 \<le> s8 + p9 + 1 / 2 ^ 50"
    unfolding s9_def using ps s2 s3 s4 s5 s6 s7 s8
    by (intro float_add_bound) simp_all
  have "0 \<le> s9 \<and> s9 \<le> 10 + 1 / 2 ^ 43"
    using ps s2 s3 s4 s5 s6 s7 s8 s9 by simp
  moreover have "weighted_overall LAYER_WEIGHTS l1 l2 l3 l4 l5 l6 l7 l8 l9 = Inr s9"
    unfolding weighted_overall_eq s9_def s8_def s7_def s6_def s5_def s4_def s3_def s2_def
      p1_def p2_def p3_def p4_def p5_def p6_def p7_def p8_def p9_def ..
  ultimately show ?thesis by blast
qed

lemma layer4_total:
  "calculate_layer4_expenditure_efficiency p c =
     Inr (if c = 0 then 0 else max 0 (min 10 (p / c * 5)))"
  by (simp add: calculate_layer4_expenditure_efficiency_def truediv_def and_then_def)

lemma clamp_range: "0 \<le> max 0 (min 10 (s::real)) \<and> max 0 (min 10 s) \<le> 10"
  by simp

lemma layer1_range:
  "0 \<le> calculate_layer1_fiscal_transparency b a \<and>
   calculate_layer1_fiscal_transparency b a \<le> 10"
  unfolding calculate_layer1_fiscal_transparency_def Let_def by (rule clamp_range)

lemma layer2_range:
  "0 \<le> calculate_layer2_revenue_stability n t e \<and>
   calculate_layer2_revenue_stability n t e \<le> 10"
  unfolding calculate_layer2_revenue_stability_def Let_def by (rule clamp_range)

lemma layer3_range:
  "0 \<le> calculate_layer3_debt_health d s t \<and> calculate_layer3_debt_health d s t \<le> 10"
  unfolding calculate_layer3_debt_health_def Let_def by (rule clamp_range)

lemma layer4_range:
  "\<exists>s. calculate_layer4_expenditure_efficiency p c = Inr s \<and> 0 \<le> s \<and> s \<le> 10"
  by (simp add: layer4_total)

lemma layer5_range:
  "0 \<le> calculate_layer5_private_sector r s f \<and> calculate_layer5_private_sector r s f \<le> 10"
  unfolding calculate_layer5_private_sector_def Let_def by (rule clamp_range)

lemma layer6_range:
  "0 \<le> calculate_layer6_trade_integration g c h \<and>
   calculate_layer6_trade_integration g c h \<le> 10"
  unfolding calculate_layer6_trade_integration_def Let_def by (rule clamp_range)

lemma layer7_range:
  "0 \<le> calculate_layer7_climate_resilience b n a \<and>
   calculate_layer7_climate_resilience b n a \<le> 10"
  unfolding calculate_layer7_climate_resilience_def Let_def by (rule clamp_range)

lemma layer8_range:
  "0 \<le> calculate_layer8_digital_readiness i e l \<and>
   calculate_layer8_digital_readiness i e l \<le> 10"
  unfolding calculate_layer8_digital_readiness_def Let_def by (rule clamp_range)

lemma layer9_range:
  "0 \<le> calculate_layer9_human_impact i u w f \<and> calculate_layer9_human_impact i u w f \<le> 10"
  unfolding calculate_layer9_human_impact_def Let_def by (rule clamp_range)

text \<open>
  Rounding to one decimal keeps a value inside \<open>[0, 10]\<close> as long as it is not negative
  and stays below 10.05.
\<close>

lemma round1_range:
  assumes "0 \<le> x" and "x < 10 + 1 / 20"
  shows "0 \<le> round1 x \<and> round1 x \<le> 10"
proof -
  define f where "f = \<lfloor>x * 10\<rfloor>"
  have f0: "0 \<le> f" using assms by (simp add: f_def)
  have "x * 10 < 101" using assms by simp
  then have f100: "f \<le> 100" unfolding f_def by (simp add: floor_le_iff)
  have top: "f < 100" if "1 / 2 \<le> x * 10 - of_int f"
  proof -
    have "of_int f \<le> x * 10 - 1 / 2" using that by simp
    also have "\<dots> < 100" using assms by simp
    finally show ?thesis by simp
  qed
  show ?thesis
    unfolding round1_def Let_def f_def [symmetric]
    using f0 f100 top by (auto simp: not_less)
qed

lemma bii_unrounded_range:
  "\<exists>c. bii_unrounded inputs = Inr c \<and> 0 \<le> c \<and> c \<le> 10 + 1 / 2 ^ 43"
proof -
  obtain l4 where l4: "calculate_layer4_expenditure_efficiency
      (productive_spending_percent inputs) (consumption_spending_percent inputs) = Inr l4"
    and r4: "0 \<le> l4 \<and> l4 \<le> 10"
    using layer4_range by blast
  show ?thesis
    unfolding bii_unrounded_def Let_def l4 and_then_def sum.case
    by (rule weighted_overall_range [OF layer1_range layer2_range layer3_range r4
          layer5_range layer6_range layer7_range layer8_range layer9_range])
qed

text \<open>
  \<open>calculate_bii\<close> always returns a record; its \<open>bii_overall\<close> is the rounded weighted sum
  and its grade is computed from the weighted sum itself.
\<close>

lemma calculate_bii_of_unrounded:
  assumes "bii_unrounded inputs = Inr c"
  shows "\<exists>r. calculate_bii inputs = Inr r \<and> bii_overall r = round1 c \<and>
             bii_grade r = calculate_grade c"
  using assms
  by (simp add: calculate_bii_def calculate_bii_cls_def bii_unrounded_def Let_def
        layer4_total and_then_def)

text \<open>The weighted sum for nine scores of 10, and for eight scores of 10 and one of 3.2.\<close>

lemma weighted_overall_full_marks:
  "weighted_overall LAYER_WEIGHTS 10 10 10 10 10 10 10 10 10 =
     Inr (5629499534213121 / 562949953421312)"
  unfolding weighted_overall_eq fl64_weights
  by (simp add: float_add_def float_mul_def fl64_def binade_def round_half_even_def Let_def)

lemma weighted_overall_near_threshold:
  "weighted_overall LAYER_WEIGHTS 10 10 10 10 10 10 10 10 (16 / 5) =
     Inr (5323254759551927 / 562949953421312)"
  unfolding weighted_overall_eq fl64_weights
  by (simp add: float_add_def float_mul_def fl64_def binade_def round_half_even_def Let_def)

lemma full_score_layers:
  "calculate_layer1_fiscal_transparency True 0 = 10"
  "calculate_layer2_revenue_stability 100 10 10 = 10"
  "calculate_layer3_debt_health 40 10 ''stable'' = 10"
  "calculate_layer4_expenditure_efficiency 100 50 = Inr 10"
  "calculate_layer5_private_sector 1 100 10 = 10"
  "calculate_layer6_trade_integration 10 10 0 = 10"
  "calculate_layer7_climate_resilience 2 10 10 = 10"
  "calculate_layer8_digital_readiness 2 50 10 = 10"
  by (simp_all add: calculate_layer1_fiscal_transparency_def
        calculate_layer2_revenue_stability_def calculate_layer3_debt_health_def
        debt_base_score_def trend_adjustment_def layer4_total
        calculate_layer5_private_sector_def calculate_layer6_trade_integration_def
        calculate_layer7_climate_resilience_def climate_budget_score_def
        calculate_layer8_digital_readiness_def)


lemma climate_budget_score_min: "climate_budget_score = (\<lambda>x. min (2 * x) 4)"
  by (auto simp: fun_eq_iff climate_budget_score_def)

section \<open>Claims\<close>

text \<open>
  C1 (Layer 2 is the sum of three point contributions, so (50, 5, 5) scores 5.0): the code
  departs from this. At non-oil share 50, tax-base breadth 5 and collection efficiency 5
  the three contributions \<open>50/100 * 6\<close>, \<open>5/10 * 3\<close> and \<open>5/10 * 1\<close> add up to 5, but
  \<open>calculate_layer2_revenue_stability\<close> multiplies that sum by 10 before clamping and
  returns 10.
\<close>

theorem layer2_double_scaling:
  "calculate_layer2_revenue_stability 50 5 5 = 10 \<and>
   (50 / 100 * 6 + 5 / 10 * 3 + 5 / 10 * 1 = (5::real))"
  by (simp add: calculate_layer2_revenue_stability_def)

text \<open>
  C2 (the grade is the ladder applied to the rounded composite of the same record): false
  as stated. On \<open>inputs_near_threshold\<close> the weighted sum is the double
  9.456000000000001; the record carries \<open>bii_overall = 9.5\<close> and the grade A, while the
  ladder applied to 9.5 gives A+.
\<close>

theorem grade_not_from_rounded:
  "calculate_bii inputs_near_threshold =
     Inr \<lparr>layer1_fiscal_transparency = 10, layer2_revenue_stability = 10,
          layer3_debt_health = 10, layer4_expenditure_efficiency = 10,
          layer5_private_sector = 10, layer6_trade_integration = 10,
          layer7_climate_resilience = 10, layer8_digital_readiness = 10,
          layer9_human_impact = 3.2, bii_overall = 9.5, bii_grade = ''A''\<rparr> \<and>
   calculate_grade 9.5 = ''A+''"
proof -
  have r10: "round1 10 = 10" and r32: "round1 (16 / 5) = 16 / 5"
    and r9456: "round1 (5323254759551927 / 562949953421312) = 19 / 2"
    by (simp_all add: round1_def Let_def)
  have l9: "calculate_layer9_human_impact 1 9 0 1 = 16 / 5"
    by (simp add: calculate_layer9_human_impact_def)
  show ?thesis
    by (simp add: calculate_bii_def calculate_bii_cls_def inputs_near_threshold_def
          full_score_layers l9 and_then_def weighted_overall_near_threshold
          r10 r32 r9456 calculate_grade_def)
qed

text \<open>
  C2, amended: for every input record \<open>calculate_bii\<close> returns a record whose grade is
  the thirteen-step ladder applied to the weighted sum before rounding, and whose
  \<open>bii_overall\<close> is that same weighted sum rounded to one decimal place.
\<close>

theorem grade_from_unrounded:
  "\<exists>c r. bii_unrounded inputs = Inr c \<and> calculate_bii inputs = Inr r \<and>
     bii_overall r = round1 c \<and> bii_grade r = calculate_grade c"
  using bii_unrounded_range [of inputs] calculate_bii_of_unrounded [of inputs] by blast

text \<open>
  C3 (Layer 4 policy): whatever the productive share, a consumption share of exactly 0
  gives the score 0 and no exception; for any other consumption share the scorer
  returns \<open>productive / consumption * 5\<close> clamped to \<open>[0, 10]\<close>, again without raising.
\<close>

theorem layer4_zero_consumption_policy:
  "calculate_layer4_expenditure_efficiency p 0 = Inr 0 \<and>
   (c \<noteq> 0 \<longrightarrow>
      calculate_layer4_expenditure_efficiency p c =
        Inr (if p / c * 5 < 0 then 0 else if 10 < p / c * 5 then 10 else p / c * 5))"
  by (auto simp: calculate_layer4_expenditure_efficiency_def truediv_def and_then_def)

theorem layer4_zero_consumption_policy_witness:
  "calculate_layer4_expenditure_efficiency 25.4 0 = Inr 0 \<and>
   (50.3::real) \<noteq> 0 \<and>
   calculate_layer4_expenditure_efficiency 25.4 50.3 = Inr (1270 / 503)"
  using layer4_zero_consumption_policy [of "25.4" "50.3"] by simp

text \<open>
  C4 (every layer score and the unclamped composite lie in \<open>[0, 10]\<close>): false as stated
  for the composite. On \<open>inputs_full_marks\<close> all nine layers score 10 and the weighted
  sum, accumulated in binary64, is \<open>10 + 2^-49\<close>, printed 10.000000000000002: above 10.
\<close>

theorem composite_exceeds_ten:
  "bii_unrounded inputs_full_marks = Inr (5629499534213121 / 562949953421312) \<and>
   (10::real) < 5629499534213121 / 562949953421312"
proof -
  have l9: "calculate_layer9_human_impact 1 3 3 10 = 10"
    by (simp add: calculate_layer9_human_impact_def)
  show ?thesis
    by (simp add: bii_unrounded_def inputs_full_marks_def full_score_layers l9
          and_then_def weighted_overall_full_marks)
qed

text \<open>
  C4, amended: each of the nine layer scorers returns a value in \<open>[0, 10]\<close> for all
  arguments (layer 4 never raises). For every input record the weighted sum, to which
  no clamp is applied, is not negative and exceeds 10 by at most \<open>2^-43\<close>, which is
  rounding error of the binary64 accumulation; the \<open>bii_overall\<close> of the result record,
  that sum rounded to one decimal place, lies in \<open>[0, 10]\<close>. The same bounds hold for the
  weighted sum of any nine scores taken from \<open>[0, 10]\<close>.
\<close>

theorem scores_in_range_up_to_rounding:
  "(0 \<le> calculate_layer1_fiscal_transparency on_time delay \<and>
    calculate_layer1_fiscal_transparency on_time delay \<le> 10) \<and>
   (0 \<le> calculate_layer2_revenue_stability non_oil tax eff \<and>
    calculate_layer2_revenue_stability non_oil tax eff \<le> 10) \<and>
   (0 \<le> calculate_layer3_debt_health debt service trend \<and>
    calculate_layer3_debt_health debt service trend \<le> 10) \<and>
   (\<exists>s. calculate_layer4_expenditure_efficiency productive consumption = Inr s \<and>
        0 \<le> s \<and> s \<le> 10) \<and>
   (0 \<le> calculate_layer5_private_sector rank sme forex \<and>
    calculate_layer5_private_sector rank sme forex \<le> 10) \<and>
   (0 \<le> calculate_layer6_trade_integration growth caricom hhi \<and>
    calculate_layer6_trade_integration growth caricom hhi \<le> 10) \<and>
   (0 \<le> calculate_layer7_climate_resilience climate projects adaptation \<and>
    calculate_layer7_climate_resilience climate projects adaptation \<le> 10) \<and>
   (0 \<le> calculate_layer8_digital_readiness ict egov literacy \<and>
    calculate_layer8_digital_readiness ict egov literacy \<le> 10) \<and>
   (0 \<le> calculate_layer9_human_impact inflation unemployment wage food \<and>
    calculate_layer9_human_impact inflation unemployment wage food \<le> 10) \<and>
   (\<exists>c r. bii_unrounded inputs = Inr c \<and> 0 \<le> c \<and> c \<le> 10 + 1 / 2 ^ 43 \<and>
          calculate_bii inputs = Inr r \<and> bii_overall r = round1 c \<and>
          0 \<le> bii_overall r \<and> bii_overall r \<le> 10) \<and>
   ((0 \<le> l1 \<and> l1 \<le> 10) \<and> (0 \<le> l2 \<and> l2 \<le> 10) \<and> (0 \<le> l3 \<and> l3 \<le> 10) \<and>
    (0 \<le> l4 \<and> l4 \<le> 10) \<and> (0 \<le> l5 \<and> l5 \<le> 10) \<and> (0 \<le> l6 \<and> l6 \<le> 10) \<and>
    (0 \<le> l7 \<and> l7 \<le> 10) \<and> (0 \<le> l8 \<and> l8 \<le> 10) \<and> (0 \<le> l9 \<and> l9 \<le> 10) \<longrightarrow>
    (\<exists>c. weighted_overall LAYER_WEIGHTS l1 l2 l3 l4 l5 l6 l7 l8 l9 = Inr c \<and>
         0 \<le> c \<and> c \<le> 10 + 1 / 2 ^ 43 \<and> 0 \<le> round1 c \<and> round1 c \<le> 10))"
proof -
  obtain c where c: "bii_unrounded inputs = Inr c" "0 \<le> c" "c \<le> 10 + 1 / 2 ^ 43"
    using bii_unrounded_range by blast
  obtain r where r: "calculate_bii inputs = Inr r" "bii_overall r = round1 c"
    using calculate_bii_of_unrounded [OF c(1)] by blast
  have "c < 10 + 1 / 20" using c(3) by simp
  then have "0 \<le> bii_overall r \<and> bii_overall r \<le> 10"
    using round1_range [OF c(2)] r(2) by simp
  with c r have in_record: "\<exists>c r. bii_unrounded inputs = Inr c \<and> 0 \<le> c \<and> c \<le> 10 + 1 / 2 ^ 43 \<and>
          calculate_bii inputs = Inr r \<and> bii_overall r = round1 c \<and>
          0 \<le> bii_overall r \<and> bii_overall r \<le> 10"
    by blast
  have in_sum: "\<exists>c. weighted_overall LAYER_WEIGHTS l1 l2 l3 l4 l5 l6 l7 l8 l9 = Inr c \<and>
         0 \<le> c \<and> c \<le> 10 + 1 / 2 ^ 43 \<and> 0 \<le> round1 c \<and> round1 c \<le> 10"
    if "(0 \<le> l1 \<and> l1 \<le> 10) \<and> (0 \<le> l2 \<and> l2 \<le> 10) \<and> (0 \<le> l3 \<and> l3 \<le> 10) \<and>
        (0 \<le> l4 \<and> l4 \<le> 10) \<and> (0 \<le> l5 \<and> l5 \<le> 10) \<and> (0 \<le> l6 \<and> l6 \<le> 10) \<and>
        (0 \<le> l7 \<and> l7 \<le> 10) \<and> (0 \<le> l8 \<and> l8 \<le> 10) \<and> (0 \<le> l9 \<and> l9 \<le> 10)"
  proof -
    from that obtain d where d: "weighted_overall LAYER_WEIGHTS l1 l2 l3 l4 l5 l6 l7 l8 l9 = Inr d"
      "0 \<le> d" "d \<le> 10 + 1 / 2 ^ 43"
      using weighted_overall_range [of l1 l2 l3 l4 l5 l6 l7 l8 l9] by blast
    have "d < 10 + 1 / 20" using d(3) by simp
    from round1_range [OF d(2) this] d show ?thesis by blast
  qed
  then have for_any_scores:
    "(0 \<le> l1 \<and> l1 \<le> 10) \<and> (0 \<le> l2 \<and> l2 \<le> 10) \<and> (0 \<le> l3 \<and> l3 \<le> 10) \<and>
     (0 \<le> l4 \<and> l4 \<le> 10) \<and> (0 \<le> l5 \<and> l5 \<le> 10) \<and> (0 \<le> l6 \<and> l6 \<le> 10) \<and>
     (0 \<le> l7 \<and> l7 \<le> 10) \<and> (0 \<le> l8 \<and> l8 \<le> 10) \<and> (0 \<le> l9 \<and> l9 \<le> 10) \<longrightarrow>
     (\<exists>c. weighted_overall LAYER_WEIGHTS l1 l2 l3 l4 l5 l6 l7 l8 l9 = Inr c \<and>
          0 \<le> c \<and> c \<le> 10 + 1 / 2 ^ 43 \<and> 0 \<le> round1 c \<and> round1 c \<le> 10)"
    by (rule impI)
  show ?thesis
    by (rule conjI [OF layer1_range conjI [OF layer2_range conjI [OF layer3_range
          conjI [OF layer4_range conjI [OF layer5_range conjI [OF layer6_range
          conjI [OF layer7_range conjI [OF layer8_range conjI [OF layer9_range
          conjI [OF in_record for_any_scores]]]]]]]]]])
qed

theorem scores_in_range_up_to_rounding_witness:
  "((0::real) \<le> 10 \<and> (10::real) \<le> 10) \<and>
   (\<exists>c. weighted_overall LAYER_WEIGHTS 10 10 10 10 10 10 10 10 10 = Inr c \<and>
        10 < c \<and> c \<le> 10 + 1 / 2 ^ 43 \<and> round1 c = 10)"
proof -
  have r: "round1 (5629499534213121 / 562949953421312) = 10"
    by (simp add: round1_def Let_def)
  from scores_in_range_up_to_rounding
    [where ?l1.0 = 10 and ?l2.0 = 10 and ?l3.0 = 10 and ?l4.0 = 10 and ?l5.0 = 10
       and ?l6.0 = 10 and ?l7.0 = 10 and ?l8.0 = 10 and ?l9.0 = 10]
  have "\<exists>c. weighted_overall LAYER_WEIGHTS 10 10 10 10 10 10 10 10 10 = Inr c \<and>
         0 \<le> c \<and> c \<le> 10 + 1 / 2 ^ 43 \<and> 0 \<le> round1 c \<and> round1 c \<le> 10"
    by simp
  then obtain c where c: "weighted_overall LAYER_WEIGHTS 10 10 10 10 10 10 10 10 10 = Inr c"
    and bound: "c \<le> 10 + 1 / 2 ^ 43"
    by blast
  have c_eq: "c = 5629499534213121 / 562949953421312"
    using c unfolding weighted_overall_full_marks by simp
  have "10 < c" "round1 c = 10"
    unfolding c_eq using r by simp_all
  with c bound show ?thesis by simp
qed

text \<open>
  C5 (weights): \<open>LAYER_WEIGHTS\<close> has exactly nine entries under nine distinct layer
  names, every weight lies strictly between 0 and 1, and the nine weights, taken as
  exact decimals, add up to exactly 1.
\<close>

theorem layer_weights_sum_to_one:
  "map fst LAYER_WEIGHTS =
     [''fiscal_transparency'', ''revenue_stability'', ''debt_health'',
      ''expenditure_efficiency'', ''private_sector'', ''trade_integration'',
      ''climate_resilience'', ''digital_readiness'', ''human_impact''] \<and>
   length LAYER_WEIGHTS = 9 \<and>
   distinct (map fst LAYER_WEIGHTS) \<and>
   list_all (\<lambda>w. 0 < w \<and> w < 1) (map snd LAYER_WEIGHTS) \<and>
   sum_list (map snd LAYER_WEIGHTS) = 1"
  by (simp add: LAYER_WEIGHTS_def)

text \<open>
  C6 (unrecognised trend): for every debt-to-GDP ratio and debt-service ratio, a trend
  string other than improving, stable and declining gives the same layer 3 score as
  the trend stable.
\<close>

theorem unrecognised_trend_as_stable:
  assumes "t \<notin> {''improving'', ''stable'', ''declining''}"
  shows "calculate_layer3_debt_health d s t = calculate_layer3_debt_health d s ''stable''"
proof -
  have "trend_adjustment t = 0"
    using assms by (simp add: trend_adjustment_def)
  moreover have "trend_adjustment ''stable'' = 0"
    by (simp add: trend_adjustment_def)
  ultimately show ?thesis
    by (simp add: calculate_layer3_debt_health_def)
qed

theorem unrecognised_trend_as_stable_witness:
  "''unknown'' \<notin> {''improving'', ''stable'', ''declining''} \<and>
   calculate_layer3_debt_health 81.8 20.6 ''unknown'' =
     calculate_layer3_debt_health 81.8 20.6 ''stable''"
  using unrecognised_trend_as_stable [of "''unknown''" "81.8" "20.6"] by simp

text \<open>
  C7 (monotone base score): whenever \<open>d1 \<le> d2\<close>, the layer 3 base score computed from
  \<open>d2\<close> is at most the one computed from \<open>d1\<close>, within each branch and across the
  boundaries 60, 75 and 85.
\<close>

theorem debt_base_score_antimono:
  assumes "d1 \<le> d2"
  shows "debt_base_score d2 \<le> debt_base_score d1"
  using assms unfolding debt_base_score_def by (auto simp add: field_simps)

theorem debt_base_score_antimono_witness:
  "(59::real) \<le> 60 \<and> debt_base_score 60 \<le> debt_base_score 59 \<and>
   (74::real) \<le> 75 \<and> debt_base_score 75 \<le> debt_base_score 74 \<and>
   (84::real) \<le> 85 \<and> debt_base_score 85 \<le> debt_base_score 84"
  using debt_base_score_antimono [of 59 60] debt_base_score_antimono [of 74 75]
    debt_base_score_antimono [of 84 85] by simp

text \<open>
  C8 (layer 7 budget score has no jump): at each breakpoint 0.5, 1.0 and 2.0 the value
  of the budget score (1, 2 and 4) is the limit of the branch below it, and the score is
  continuous there.
\<close>

theorem climate_budget_score_continuous:
  "climate_budget_score 0.5 = 1 \<and> (climate_budget_score \<longlongrightarrow> 1) (at_left 0.5) \<and>
   climate_budget_score 1.0 = 2 \<and> (climate_budget_score \<longlongrightarrow> 2) (at_left 1.0) \<and>
   climate_budget_score 2.0 = 4 \<and> (climate_budget_score \<longlongrightarrow> 4) (at_left 2.0) \<and>
   isCont climate_budget_score 0.5 \<and> isCont climate_budget_score 1.0 \<and>
   isCont climate_budget_score 2.0"
proof -
  have cont: "isCont climate_budget_score x" for x
    unfolding climate_budget_score_min by (intro continuous_intros)
  have left: "(climate_budget_score \<longlongrightarrow> climate_budget_score x) (at_left x)" for x
    using continuous_at_imp_continuous_at_within [OF cont, of x "{..<x}"]
    by (simp add: continuous_within)
  have vals: "climate_budget_score 0.5 = 1" "climate_budget_score 1.0 = 2"
    "climate_budget_score 2.0 = 4"
    by (simp_all add: climate_budget_score_def)
  show ?thesis
    using left [of "0.5"] left [of "1.0"] left [of "2.0"] cont vals by simp
qed



text \<open>
  C10 (layer 2 saturation): with tax-base breadth and collection efficiency not
  negative, a non-oil revenue share of at least 50/3 already makes layer 2 return
  exactly 10.
\<close>

theorem layer2_saturation:
  assumes "0 \<le> tax" and "0 \<le> eff" and "50 / 3 \<le> non_oil"
  shows "calculate_layer2_revenue_stability non_oil tax eff = 10"
proof -
  have "10 \<le> (non_oil / 100 * 6 + tax / 10 * 3 + eff / 10 * 1) * 10"
    using assms by simp
  then show ?thesis
    by (simp add: calculate_layer2_revenue_stability_def Let_def)
qed

theorem layer2_saturation_witness:
  "(0::real) \<le> 5 \<and> (0::real) \<le> 5 \<and> (50::real) / 3 \<le> 78 \<and>
   calculate_layer2_revenue_stability 78 5 5 = 10"
  using layer2_saturation [of 5 5 78] by simp

end
